theory Spec2Isabelle
  imports Complex_Main
begin

section \<open>Python values and text\<close>

text \<open>
  The toolbox is Python 3 driving a geodatabase through \<^verbatim>\<open>arcpy\<close> and a data frame through
  \<^verbatim>\<open>pandas\<close>. A value read from a table is null, a text or a whole number; the value
  \<open>NA\<close> stands for the null of either library (\<^verbatim>\<open>None\<close> from a cursor,
  \<^verbatim>\<open>NaN\<close> or \<^verbatim>\<open>pd.NA\<close> in a frame).
\<close>

datatype cell = NA | Txt string | Num int

datatype py_error = ExecuteError | TypeError | ValueError

fun string_of_nat :: "nat \<Rightarrow> string" where
  "string_of_nat n =
     (if n < 10 then [''0123456789'' ! n]
      else string_of_nat (n div 10) @ [''0123456789'' ! (n mod 10)])"

declare string_of_nat.simps [simp del]

definition str_int :: "int \<Rightarrow> string" where
  \<comment> \<open>\<^verbatim>\<open>str(i)\<close> of a Python int\<close>
  "str_int i = (if i < 0 then CHR ''-'' # string_of_nat (nat (- i)) else string_of_nat (nat i))"

fun py_str :: "cell \<Rightarrow> string" where
  \<comment> \<open>\<^verbatim>\<open>str(v)\<close>, also what an f-string puts for \<^verbatim>\<open>{v}\<close>\<close>
  "py_str NA = ''None''"
| "py_str (Txt s) = s"
| "py_str (Num i) = str_int i"

section \<open>The tabular store\<close>

text \<open>
  A feature class is a schema (field names with their types, in order) and its features;
  a feature is a geometry and a row of attribute values. A plain table is a feature class
  whose geometry type is \<open>unit\<close>. A layer made by \<^verbatim>\<open>MakeFeatureLayer\<close> with a where clause, or
  narrowed by \<^verbatim>\<open>SelectLayerByAttribute\<close> or \<^verbatim>\<open>SelectLayerByLocation\<close>, is the feature class
  together with a predicate \<open>sel\<close> on its features: a tool run on the layer touches the
  features that satisfy \<open>sel\<close> and no others (none when the selection is empty, which is
  what \<^verbatim>\<open>clip_patches\<close> relies on when it deletes the selected features).
\<close>

datatype ftype = TEXT | SHORT | LONG | FLOAT | DOUBLE

type_synonym row = "string \<Rightarrow> cell"

record 'g feature =
  Shape :: 'g
  attr :: row

record 'g feature_class =
  fc_fields :: "(string \<times> ftype) list"
  features :: "'g feature list"

definition ListFields :: "'g feature_class \<Rightarrow> string list" where
  \<comment> \<open>\<^verbatim>\<open>[f.name for f in arcpy.ListFields(fc)]\<close>\<close>
  "ListFields fc = map fst (fc_fields fc)"

definition SearchCursor :: "'g feature_class \<Rightarrow> string \<Rightarrow> cell list" where
  \<comment> \<open>\<^verbatim>\<open>[row[0] for row in arcpy.da.SearchCursor(fc, [f])]\<close>\<close>
  "SearchCursor fc f = map (\<lambda>x. attr x f) (features fc)"

definition set_attr :: "string \<Rightarrow> cell \<Rightarrow> 'g feature \<Rightarrow> 'g feature" where
  "set_attr f v x = x\<lparr>attr := (attr x)(f := v)\<rparr>"

definition AddField :: "string \<Rightarrow> ftype \<Rightarrow> 'g feature_class \<Rightarrow> 'g feature_class" where
  \<comment> \<open>a new nullable field of a geodatabase feature class is null in every row; adding
      a field that exists changes nothing\<close>
  "AddField f ty fc =
     (if f \<in> set (ListFields fc) then fc
      else fc\<lparr>fc_fields := fc_fields fc @ [(f, ty)], features := map (set_attr f NA) (features fc)\<rparr>)"

definition DeleteField :: "string list \<Rightarrow> 'g feature_class \<Rightarrow> 'g feature_class" where
  "DeleteField fs fc =
     fc\<lparr>fc_fields := filter (\<lambda>p. fst p \<notin> set fs) (fc_fields fc),
        features := map (\<lambda>x. x\<lparr>attr := (\<lambda>f. if f \<in> set fs then NA else attr x f)\<rparr>) (features fc)\<rparr>"

fun digit_of :: "char \<Rightarrow> nat option" where
  "digit_of c = (if c \<in> set ''0123456789'' then Some (of_char c - 48) else None)"

fun nat_of_digits :: "nat \<Rightarrow> string \<Rightarrow> nat option" where
  "nat_of_digits acc [] = Some acc"
| "nat_of_digits acc (c # cs) =
     (case digit_of c of None \<Rightarrow> None | Some d \<Rightarrow> nat_of_digits (10 * acc + d) cs)"

fun int_of_string :: "string \<Rightarrow> int option" where
  \<comment> \<open>reading a decimal whole number, as the store does when a text is written to a
      numeric field\<close>
  "int_of_string [] = None"
| "int_of_string (c # cs) =
     (if c = CHR ''-'' then (if cs = [] then None else map_option (\<lambda>n. - int n) (nat_of_digits 0 cs))
      else map_option int (nat_of_digits 0 (c # cs)))"

fun coerce :: "ftype \<Rightarrow> cell \<Rightarrow> cell option" where
  \<comment> \<open>the value a field of the given type holds once \<^verbatim>\<open>CalculateField\<close> has written a
      Python value to it; \<open>None\<close> when the value does not fit the field\<close>
  "coerce ty NA = Some NA"
| "coerce TEXT (Txt s) = Some (Txt s)"
| "coerce TEXT (Num i) = Some (Txt (str_int i))"
| "coerce ty (Num i) = Some (Num i)"
| "coerce ty (Txt s) = map_option Num (int_of_string s)"

fun calc_features ::
  "('g feature \<Rightarrow> bool) \<Rightarrow> string \<Rightarrow> ftype \<Rightarrow> (row \<Rightarrow> cell option) \<Rightarrow> 'g feature list
     \<Rightarrow> 'g feature list option" where
  "calc_features sel f ty e [] = Some []"
| "calc_features sel f ty e (x # xs) =
     (if sel x then
        (case e (attr x) of
           None \<Rightarrow> None
         | Some v \<Rightarrow>
             (case coerce ty v of
                None \<Rightarrow> None
              | Some w \<Rightarrow> map_option ((#) (set_attr f w x)) (calc_features sel f ty e xs)))
      else map_option ((#) x) (calc_features sel f ty e xs))"

definition field_type :: "'g feature_class \<Rightarrow> string \<Rightarrow> ftype" where
  "field_type fc f = (case map_of (fc_fields fc) f of Some ty \<Rightarrow> ty | None \<Rightarrow> TEXT)"

definition CalculateField ::
  "('g feature \<Rightarrow> bool) \<Rightarrow> string \<Rightarrow> ftype \<Rightarrow> (row \<Rightarrow> cell option) \<Rightarrow> 'g feature_class
     \<Rightarrow> py_error + 'g feature_class" where
  \<comment> \<open>\<^verbatim>\<open>arcpy.management.CalculateField(in_table, field, expression, field_type=ty)\<close> on the
      layer \<open>sel\<close>: the expression \<open>e\<close> is evaluated on each selected row (\<open>None\<close>
      when it raises) and written to the field, which is added with type \<open>ty\<close> first
      when the table lacks it; a raise or a value that does not fit fails the tool\<close>
  "CalculateField sel f ty e fc =
     (let fc1 = AddField f ty fc
      in case calc_features sel f (field_type fc1 f) e (features fc1) of
           None \<Rightarrow> Inl ExecuteError
         | Some xs \<Rightarrow> Inr (fc1\<lparr>features := xs\<rparr>))"

definition bind_err :: "'e + 'a \<Rightarrow> ('a \<Rightarrow> 'e + 'b) \<Rightarrow> 'e + 'b" where
  \<comment> \<open>statement sequencing: an exception of the first statement skips the rest\<close>
  "bind_err m k = (case m of Inl e \<Rightarrow> Inl e | Inr a \<Rightarrow> k a)"

section \<open>Identity and naming: Park and PatchName\<close>






section \<open>Shape metrics: area and perimeter kept in step with the geometry\<close>

text \<open>
  \<^verbatim>\<open>addAttrUtils.update_area_perim\<close>. \<^verbatim>\<open>Shape_Area\<close> and \<^verbatim>\<open>Shape_Length\<close> are doubles kept by
  the geodatabase; a double is a rational number, and both \<^verbatim>\<open>==\<close> and \<^verbatim>\<open>round\<close> are exact on
  it, so the columns are modelled over \<open>rat\<close>. The stored \<^verbatim>\<open>area\<close> and \<^verbatim>\<open>perim\<close> may be null.
\<close>

definition py_round :: "rat \<Rightarrow> int" where
  \<comment> \<open>Python 3 \<^verbatim>\<open>round(x)\<close>: the nearest integer, a tie going to the even one\<close>
  "py_round x =
     (let f = \<lfloor>x\<rfloor>; d = x - of_int f
      in if d < 1 / 2 then f
         else if 1 / 2 < d then f + 1
         else if even f then f else f + 1)"

definition update :: "rat option \<Rightarrow> rat \<Rightarrow> rat option" where
  \<comment> \<open>the code block \<^verbatim>\<open>def update(orig, new)\<close>\<close>
  "update orig new = (if orig = Some new then orig else Some (of_int (py_round new)))"

record shape_row =
  area :: "rat option"
  perim :: "rat option"
  Shape_Area :: rat
  Shape_Length :: rat

definition calc_area :: "shape_row \<Rightarrow> shape_row" where
  \<comment> \<open>\<^verbatim>\<open>CalculateField(field="area", expression="update(!area!, !Shape_Area!)")\<close> on one row\<close>
  "calc_area r = r\<lparr>area := update (area r) (Shape_Area r)\<rparr>"

definition calc_perim :: "shape_row \<Rightarrow> shape_row" where
  \<comment> \<open>\<^verbatim>\<open>CalculateField(field="perim", expression="update(!perim!, !Shape_Length!)")\<close> on one row\<close>
  "calc_perim r = r\<lparr>perim := update (perim r) (Shape_Length r)\<rparr>"

definition update_area_perim :: "shape_row list \<Rightarrow> shape_row list" where
  "update_area_perim patches_fc = map calc_perim (map calc_area patches_fc)"

fun is_num :: "cell \<Rightarrow> bool" where
  "is_num (Num i) = True"
| "is_num c = False"

fun is_txt :: "cell \<Rightarrow> bool" where
  "is_txt (Txt s) = True"
| "is_txt c = False"



section \<open>Event fields and the automatic mask labels\<close>

definition event_field_names :: "string list" where
  "event_field_names =
     [''EventType'', ''ChangeType'', ''Confidence'', ''AltType'', ''ChangeDesc'', ''EventDate'',
      ''LabeledBy'', ''PriorRun'', ''PostDist'', ''DistName'', ''DistYear'', ''Split'', ''MapPatch'']"

definition event_field_types :: "ftype list" where
  "event_field_types =
     [TEXT, TEXT, SHORT, TEXT, TEXT, TEXT, TEXT, SHORT, SHORT, TEXT, SHORT, SHORT, TEXT]"

definition add_event_fields :: "'g feature_class \<Rightarrow> py_error + 'g feature_class" where
  \<comment> \<open>the loop of \<^verbatim>\<open>AddField\<close> calls, then \<^verbatim>\<open>Split\<close> set to 0 in every row\<close>
  "add_event_fields patches_fc =
     CalculateField (\<lambda>x. True) ''Split'' TEXT (\<lambda>r. Some (Num 0))
       (fold (\<lambda>(n, ty). AddField n ty) (zip event_field_names event_field_types) patches_fc)"

fun calculate_fields ::
  "('g feature \<Rightarrow> bool) \<Rightarrow> (string \<times> cell) list \<Rightarrow> 'g feature_class \<Rightarrow> py_error + 'g feature_class" where
  \<comment> \<open>\<^verbatim>\<open>for i in range(len(fields)): CalculateField(fc, fields[i], f'"{values[i]}"')\<close>: the
      expression is the quoted text of the value, so what is written is \<^verbatim>\<open>str(values[i])\<close>\<close>
  "calculate_fields sel [] fc = Inr fc"
| "calculate_fields sel ((f, v) # fvs) fc =
     bind_err (CalculateField sel f TEXT (\<lambda>r. Some (Txt (py_str v))) fc) (calculate_fields sel fvs)"

definition add_annual_var ::
  "('g feature \<Rightarrow> bool) \<Rightarrow> string \<Rightarrow> 'g feature_class \<Rightarrow> py_error + 'g feature_class" where
  \<comment> \<open>\<open>sel\<close> is the layer passed in; \<open>today\<close> is \<^verbatim>\<open>str(date.today())\<close>\<close>
  "add_annual_var sel today fc =
     calculate_fields sel
       (zip [''EventType'', ''ChangeType'', ''Confidence'', ''EventDate'', ''LabeledBy'', ''PriorRun'',
             ''PostDist'']
            [Txt ''Mask'', Txt ''Annual Variability'', Num 2, Txt today, Txt ''Geoprocessing'', Num 0,
             Num 0])
       fc"

definition label_elev_mask :: "string \<Rightarrow> 'g feature_class \<Rightarrow> py_error + 'g feature_class" where
  \<comment> \<open>the layer \<^verbatim>\<open>MakeFeatureLayer(patches_fc, in_lyr, where_clause="InMask = 1")\<close>; a where
      clause over a field the table lacks fails the tool\<close>
  "label_elev_mask today patches_fc =
     (if ''InMask'' \<in> set (ListFields patches_fc)
      then add_annual_var (\<lambda>x. attr x ''InMask'' = Num 1) today patches_fc
      else Inl ExecuteError)"

definition label_water_mask ::
  "('g \<Rightarrow> bool) \<Rightarrow> string \<Rightarrow> 'g feature_class \<Rightarrow> py_error + 'g feature_class" where
  \<comment> \<open>\<open>within_water\<close> is the provider's \<^verbatim>\<open>COMPLETELY_WITHIN\<close> test of a geometry against
      the water mask\<close>
  "label_water_mask within_water today patches_fc =
     add_annual_var (\<lambda>x. within_water (Shape x)) today patches_fc"

definition event_labeler ::
  "bool \<Rightarrow> string \<Rightarrow> ('g \<Rightarrow> bool) \<Rightarrow> string \<Rightarrow> string \<Rightarrow> 'g feature_class
     \<Rightarrow> py_error + 'g feature_class" where
  \<comment> \<open>the \<^verbatim>\<open>if events_mask:\<close> block of the yearly loop in \<^verbatim>\<open>AddAttributesToPatches.py\<close>;
      \<open>d1\<close> and \<open>d2\<close> are the dates read by the two labelling calls\<close>
  "event_labeler events_mask park within_water d1 d2 patches_fc =
     (if events_mask then
        bind_err (add_event_fields patches_fc)
          (\<lambda>fc1. bind_err (if park \<noteq> ''LEWI'' then label_elev_mask d1 fc1 else Inr fc1)
                    (label_water_mask within_water d2))
      else Inr patches_fc)"

text \<open>What the labelling writes, as functions on rows, and the schema it needs.\<close>

definition mask_label :: "string \<Rightarrow> row \<Rightarrow> row" where
  "mask_label today r =
     r(''EventType'' := Txt ''Mask'', ''ChangeType'' := Txt ''Annual Variability'',
       ''Confidence'' := Num 2, ''EventDate'' := Txt today, ''LabeledBy'' := Txt ''Geoprocessing'',
       ''PriorRun'' := Num 0, ''PostDist'' := Num 0)"

definition labelled_fields :: "string list" where
  "labelled_fields = [''EventType'', ''ChangeType'', ''Confidence'', ''EventDate'', ''LabeledBy'', ''PriorRun'', ''PostDist'']"

definition event_schema :: "'g feature_class \<Rightarrow> bool" where
  "event_schema fc \<longleftrightarrow>
     set labelled_fields \<subseteq> set (ListFields fc)
     \<and> map (field_type fc) labelled_fields = [TEXT, TEXT, SHORT, TEXT, TEXT, SHORT, SHORT]"

definition events_blank :: "row \<Rightarrow> row" where
  "events_blank r = (\<lambda>f. if f = ''Split'' then Num 0 else if f \<in> set event_field_names then NA else r f)"

definition example_year_fc :: "nat feature_class" where
  \<comment> \<open>one year of a park with an elevation mask; the geometry is a patch number\<close>
  "example_year_fc =
     \<lparr>fc_fields = [(''annualID'', LONG), (''InMask'', SHORT)],
      features =
        [\<lparr>Shape = 1, attr = (\<lambda>f. NA)(''annualID'' := Num 1, ''InMask'' := Num 1)\<rparr>,
         \<lparr>Shape = 2, attr = (\<lambda>f. NA)(''annualID'' := Num 2, ''InMask'' := Num 0)\<rparr>,
         \<lparr>Shape = 3, attr = (\<lambda>f. NA)(''annualID'' := Num 3, ''InMask'' := Num 0)\<rparr>]\<rparr>"

section \<open>Temporal overlap tracking\<close>

definition add_overlap_prev ::
  "('g \<Rightarrow> 'g \<Rightarrow> bool) \<Rightarrow> 'g feature_class \<Rightarrow> 'g feature_class \<Rightarrow> string \<Rightarrow> bool
     \<Rightarrow> py_error + 'g feature_class" where
  \<comment> \<open>\<open>overlaps\<close> is the provider's \<^verbatim>\<open>INTERSECT\<close> test with search distance -1 metre.
      Both layers carry the same where clause (it fails the tool when its field is missing);
      the selection is the base layer's features that overlap a feature of the previous
      layer, and \<^verbatim>\<open>OverlapPrv\<close> is set to 1 on the selection only\<close>
  "add_overlap_prev overlaps base_fc prev_fc park events_mask =
     (let wfield = (if events_mask then Some ''EventType''
                    else if park \<noteq> ''LEWI'' then Some ''InMask'' else None);
          wh = (if events_mask then (\<lambda>r. r ''EventType'' = NA)
                else if park \<noteq> ''LEWI'' then (\<lambda>r. r ''InMask'' = Num 0) else (\<lambda>r. True));
          prev_lyr = filter (\<lambda>y. wh (attr y)) (features prev_fc)
      in if (case wfield of None \<Rightarrow> True
             | Some f \<Rightarrow> f \<in> set (ListFields base_fc) \<and> f \<in> set (ListFields prev_fc))
         then CalculateField
                (\<lambda>x. wh (attr x) \<and> list_ex (\<lambda>y. overlaps (Shape x) (Shape y)) prev_lyr)
                ''OverlapPrv'' TEXT (\<lambda>r. Some (Num 1)) base_fc
         else Inl ExecuteError)"

definition Append :: "'g feature_class \<Rightarrow> 'g feature_class \<Rightarrow> 'g feature_class" where
  \<comment> \<open>\<^verbatim>\<open>Append(inputs, target, schema_type="TEST_AND_SKIP")\<close>: an input whose schema differs
      from the target's is skipped\<close>
  "Append patches_fc changeDB_fc =
     (if fc_fields patches_fc = fc_fields changeDB_fc
      then changeDB_fc\<lparr>features := features changeDB_fc @ features patches_fc\<rparr>
      else changeDB_fc)"

definition overlap_and_merge ::
  "('g \<Rightarrow> 'g \<Rightarrow> bool) \<Rightarrow> string \<Rightarrow> bool \<Rightarrow> 'g feature_class option \<Rightarrow> 'g feature_class option
     \<Rightarrow> 'g feature_class \<Rightarrow> py_error + ('g feature_class \<times> 'g feature_class)" where
  \<comment> \<open>one pass of the yearly loop of \<^verbatim>\<open>AddAttributesToPatches.py\<close> from
      \<^verbatim>\<open>prev_fc = base_fc\<close> to the copy or append into the cumulative feature class;
      \<open>patches_fc\<close> is the year's feature class as the enrichment and the labeller left
      it. It returns the new \<^verbatim>\<open>base_fc\<close> and the cumulative feature class\<close>
  "overlap_and_merge overlaps park events_mask base_fc changeDB_fc patches_fc =
     (let prev_fc = base_fc;
          fc1 = AddField ''OverlapPrv'' SHORT patches_fc
      in bind_err (case prev_fc of
                     None \<Rightarrow> Inr fc1
                   | Some prev \<Rightarrow> add_overlap_prev overlaps fc1 prev park events_mask)
           (\<lambda>fc2. Inr (fc2, (case changeDB_fc of None \<Rightarrow> fc2 | Some db \<Rightarrow> Append fc2 db))))"

fun yearly_loop ::
  "('g \<Rightarrow> 'g \<Rightarrow> bool) \<Rightarrow> string \<Rightarrow> bool \<Rightarrow> 'g feature_class option \<Rightarrow> 'g feature_class option
     \<Rightarrow> 'g feature_class list \<Rightarrow> py_error + 'g feature_class option" where
  \<comment> \<open>the loop over the years, in the order of the shapefile list\<close>
  "yearly_loop overlaps park events_mask base_fc changeDB_fc [] = Inr changeDB_fc"
| "yearly_loop overlaps park events_mask base_fc changeDB_fc (patches_fc # years) =
     bind_err (overlap_and_merge overlaps park events_mask base_fc changeDB_fc patches_fc)
       (\<lambda>(base', db'). yearly_loop overlaps park events_mask (Some base') (Some db') years)"

definition example_years :: "(nat set) feature_class list" where
  \<comment> \<open>two years of a park with an elevation mask, event labelling off; the geometry of a
      patch is the set of cells it covers\<close>
  "example_years =
     [\<lparr>fc_fields = [(''annualID'', LONG), (''yod'', LONG), (''InMask'', SHORT)],
       features =
         [\<lparr>Shape = {1, 2}, attr = (\<lambda>f. NA)(''annualID'' := Num 1, ''yod'' := Num 1990, ''InMask'' := Num 0)\<rparr>]\<rparr>,
      \<lparr>fc_fields = [(''annualID'', LONG), (''yod'', LONG), (''InMask'', SHORT)],
       features =
         [\<lparr>Shape = {2, 3}, attr = (\<lambda>f. NA)(''annualID'' := Num 1, ''yod'' := Num 1991, ''InMask'' := Num 0)\<rparr>,
          \<lparr>Shape = {7}, attr = (\<lambda>f. NA)(''annualID'' := Num 2, ''yod'' := Num 1991, ''InMask'' := Num 0)\<rparr>]\<rparr>]"

section \<open>Joining curated labels\<close>

fun join_names :: "string list \<Rightarrow> string list \<Rightarrow> string list" where
  \<comment> \<open>the names \<^verbatim>\<open>JoinField\<close> gives the joined fields: a name the table already has gets
      the suffix \<^verbatim>\<open>_1\<close>, which \<^verbatim>\<open>update_event_fields\<close> relies on\<close>
  "join_names existing [] = []"
| "join_names existing (f # fs) =
     (let n = (if f \<in> set existing then f @ ''_1'' else f) in n # join_names (existing @ [n]) fs)"

definition join_value :: "'h feature_class \<Rightarrow> string \<Rightarrow> string \<Rightarrow> cell \<Rightarrow> cell" where
  \<comment> \<open>the value of field \<open>f\<close> in the first row of the join table whose key is \<open>k\<close>;
      null when there is none (a null key matches nothing)\<close>
  "join_value join_table join_field f k =
     (case find (\<lambda>y. attr y join_field = k)
             (filter (\<lambda>y. is_num (attr y join_field) \<or> is_txt (attr y join_field))
                (features join_table)) of
        None \<Rightarrow> NA
      | Some y \<Rightarrow> attr y f)"

definition JoinField ::
  "'g feature_class \<Rightarrow> string \<Rightarrow> 'h feature_class \<Rightarrow> string \<Rightarrow> string list
     \<Rightarrow> py_error + 'g feature_class" where
  \<comment> \<open>\<^verbatim>\<open>arcpy.management.JoinField(in_data, in_field, join_table, join_field, fields)\<close>: a
      permanent join, the joined fields appended to the schema of \<open>in_data\<close>\<close>
  "JoinField in_data in_field join_table join_field fs =
     (if in_field \<in> set (ListFields in_data) \<and> join_field \<in> set (ListFields join_table)
         \<and> list_all (\<lambda>f. f \<in> set (ListFields join_table)) fs
      then
        (let names = join_names (ListFields in_data) fs
         in Inr (in_data
                  \<lparr>fc_fields := fc_fields in_data @ zip names (map (field_type join_table) fs),
                   features :=
                     map (\<lambda>x. x\<lparr>attr := fold (\<lambda>(n, f) r. r(n := join_value join_table join_field f
                                                                       (attr x in_field)))
                                            (zip names fs) (attr x)\<rparr>)
                       (features in_data)\<rparr>))
      else Inl ExecuteError)"

fun copy_fields ::
  "(string \<times> string) list \<Rightarrow> 'g feature_class \<Rightarrow> py_error + 'g feature_class" where
  \<comment> \<open>\<^verbatim>\<open>for i in range(len(patches_fields)): CalculateField(patches_fc, patches_fields[i],
      f'!{value_fields[i]}!')\<close>; an expression over a field the table lacks fails the tool\<close>
  "copy_fields [] fc = Inr fc"
| "copy_fields ((p, v) # rest) fc =
     bind_err (if v \<in> set (ListFields fc) then CalculateField (\<lambda>x. True) p TEXT (\<lambda>r. Some (r v)) fc
               else Inl ExecuteError)
       (copy_fields rest)"

definition update_event_fields :: "'g feature_class \<Rightarrow> py_error + 'g feature_class" where
  "update_event_fields patches_fc =
     (let patches_fields = [''EventType'', ''ChangeType'', ''Confidence'', ''AltType'', ''ChangeType'',
                            ''DistYear'', ''DistName''];
          value_fields = [''EventType_1'', ''ChangeType_1'', ''Confidence_1'', ''AltType_1'',
                          ''ChangeType_1'', ''DistYear_1'', ''DistName_1'']
      in bind_err (copy_fields (zip patches_fields value_fields) patches_fc)
           (\<lambda>fc. Inr (DeleteField value_fields fc)))"

definition join_labels_to_patches ::
  "'g feature_class \<Rightarrow> 'h feature_class \<Rightarrow> py_error + 'g feature_class" where
  \<comment> \<open>the join and update part of \<^verbatim>\<open>JoinLabelsToPatches.py\<close>\<close>
  "join_labels_to_patches patches_fc events_tbl =
     (let event_fields_exist = ''EventType'' \<in> set (ListFields patches_fc)
      in bind_err (JoinField patches_fc ''PatchName'' events_tbl ''PatchName''
                     [''EventType'', ''ChangeType'', ''Confidence'', ''AltType'', ''ChangeDesc'',
                      ''DistYear'', ''DistName''])
           (\<lambda>fc1. if event_fields_exist then update_event_fields fc1 else Inr fc1))"

definition label_schema :: "(string \<times> ftype) list" where
  "label_schema =
     [(''PatchName'', TEXT), (''EventType'', TEXT), (''ChangeType'', TEXT), (''Confidence'', SHORT),
      (''AltType'', TEXT), (''ChangeDesc'', TEXT), (''DistYear'', SHORT), (''DistName'', TEXT)]"

definition example_labelled_fc :: "unit feature_class" where
  \<comment> \<open>one patch that already carries a label\<close>
  "example_labelled_fc =
     \<lparr>fc_fields = label_schema,
      features =
        [\<lparr>Shape = (),
          attr = (\<lambda>f. NA)(''PatchName'' := Txt ''MORA_5_7_1990_2020_2001_42'', ''EventType'' := Txt ''Dist'',
                 ''ChangeType'' := Txt ''Fire'', ''Confidence'' := Num 1, ''AltType'' := Txt ''Avalanche'',
                 ''ChangeDesc'' := Txt ''old note'', ''DistYear'' := Num 2000,
                 ''DistName'' := Txt ''Old Fire'')\<rparr>]\<rparr>"

definition example_events_tbl :: "unit feature_class" where
  \<comment> \<open>the curated table, with a fresher label for the same patch\<close>
  "example_events_tbl =
     \<lparr>fc_fields = label_schema,
      features =
        [\<lparr>Shape = (),
          attr = (\<lambda>f. NA)(''PatchName'' := Txt ''MORA_5_7_1990_2020_2001_42'', ''EventType'' := Txt ''Clear'',
                 ''ChangeType'' := Txt ''Clearing'', ''Confidence'' := Num 3, ''AltType'' := Txt ''Fire'',
                 ''ChangeDesc'' := Txt ''new note'', ''DistYear'' := Num 2001,
                 ''DistName'' := Txt ''New Cut'')\<rparr>]\<rparr>"

section \<open>Attributes from reference layers\<close>
















section \<open>Messages\<close>

datatype msg = AddError string | AddWarning string | AddMessage string

fun join_with :: "string \<Rightarrow> string list \<Rightarrow> string" where
  \<comment> \<open>\<^verbatim>\<open>sep.join(xs)\<close>\<close>
  "join_with sep [] = []"
| "join_with sep [x] = x"
| "join_with sep (x # y # ys) = x @ sep @ join_with sep (y # ys)"

definition repr_int_list :: "int list \<Rightarrow> string" where
  \<comment> \<open>what an f-string shows for a list of ints\<close>
  "repr_int_list xs = ''['' @ join_with '', '' (map str_int xs) @ '']''"

section \<open>Coordinates: central point with centroid fallback\<close>

text \<open>
  A patch of the coordinate deriver: its identifier, what the provider can compute from
  its geometry (the central point, or nothing when it cannot be calculated; the centroid,
  always), and the fields the deriver writes. Coordinates are doubles; they are only
  copied, never computed with, and are modelled as rationals. The two other coordinate
  systems are projections of the point, given as parameters.
\<close>

type_synonym point = "rat \<times> rat"

record patch =
  annualID :: int
  inside_pt :: "point option"
  centroid_pt :: point
  CoordType :: "string option"
  X_Coord_m :: "rat option"
  Y_Coord_m :: "rat option"
  UTMX :: "rat option"
  UTMY :: "rat option"
  Longitude :: "rat option"
  Latitude :: "rat option"
  Datum :: "string option"

datatype point_kind = INSIDE | CENTROID

fun geometry_point :: "point_kind \<Rightarrow> patch \<Rightarrow> point option" where
  "geometry_point INSIDE p = inside_pt p"
| "geometry_point CENTROID p = Some (centroid_pt p)"

fun CalculateGeometryAttributes ::
  "(patch \<Rightarrow> bool) \<Rightarrow> point_kind \<Rightarrow> (point \<Rightarrow> patch \<Rightarrow> patch) \<Rightarrow> patch list \<Rightarrow> bool \<times> patch list" where
  \<comment> \<open>the tool on the layer \<open>sel\<close>, row by row in table order: \<open>put\<close> writes the point of
      a row to its fields. The tool raises \<^verbatim>\<open>ExecuteError\<close> at the first selected row whose
      point cannot be calculated; that row and the rows after it keep what they had (the
      rows before it keep what was written), which is what \<^verbatim>\<open>add_albers\<close> relies on to
      find the row. The flag is \<open>True\<close> when the tool raised\<close>
  "CalculateGeometryAttributes sel k put [] = (False, [])"
| "CalculateGeometryAttributes sel k put (p # ps) =
     (if sel p then
        (case geometry_point k p of
           None \<Rightarrow> (True, p # ps)
         | Some pt \<Rightarrow> (let (raised, ps') = CalculateGeometryAttributes sel k put ps
                       in (raised, put pt p # ps')))
      else (let (raised, ps') = CalculateGeometryAttributes sel k put ps in (raised, p # ps')))"

definition put_albers :: "point \<Rightarrow> patch \<Rightarrow> patch" where
  \<comment> \<open>\<^verbatim>\<open>geometry_property="X_Coord_m ..._X;Y_Coord_m ..._Y"\<close>, in the data's own system\<close>
  "put_albers pt p = p\<lparr>X_Coord_m := Some (fst pt), Y_Coord_m := Some (snd pt)\<rparr>"

definition py_truthy_ids :: "int list option \<Rightarrow> bool" where
  \<comment> \<open>\<^verbatim>\<open>if annual_ids:\<close>, false for \<^verbatim>\<open>None\<close> and for the empty list\<close>
  "py_truthy_ids ids = (case ids of None \<Rightarrow> False | Some l \<Rightarrow> l \<noteq> [])"

type_synonym albers_result = "int list option \<times> patch list \<times> msg list"

fun add_albers ::
  "nat \<Rightarrow> string \<Rightarrow> int option \<Rightarrow> int list option \<Rightarrow> patch list \<times> msg list
     \<Rightarrow> (py_error + albers_result) option"
  and culprit_loop ::
  "nat \<Rightarrow> string \<Rightarrow> nat \<Rightarrow> int list option \<Rightarrow> patch list \<times> msg list
     \<Rightarrow> (py_error + albers_result) option" where
  \<comment> \<open>\<^verbatim>\<open>add_albers(fc, a_id, annual_ids)\<close> on the table \<open>fc\<close> named \<open>fc_name\<close>, with the
      messages so far; the first argument bounds the depth of calls, and \<open>None\<close> is a run
      that did not finish within it. \<open>culprit_loop\<close> is the search cursor of the
      \<^verbatim>\<open>except\<close> branch at row \<open>i\<close>, reading the table as it is now; past the last row the
      function falls through to its final \<^verbatim>\<open>return annual_ids\<close>\<close>
  "add_albers 0 fc_name a_id annual_ids (fc, msgs) = None"
| "add_albers (Suc fuel) fc_name a_id annual_ids (fc, msgs) =
     (case map annualID fc of
        [] \<Rightarrow> Some (Inl ValueError)
      | a0 # as \<Rightarrow>
          (let max_aid = fold max as a0
           in case (if a_id = Some 0 then None else a_id) of
                Some a \<Rightarrow>
                  (let annual_ids1 = (case annual_ids of None \<Rightarrow> [] | Some l \<Rightarrow> l) @ [a]
                   in if a = max_aid
                      then Some (Inr (Some annual_ids1, fc,
                             msgs @ [AddWarning (''The central point(s) could not be calculated for patch(es) from ''
                                      @ fc_name @ '' with annualID(s) '' @ repr_int_list annual_ids1
                                      @ ''. Centroid(s) calculated instead.'')]))
                      else (case CalculateGeometryAttributes (\<lambda>p. a < annualID p) INSIDE put_albers fc of
                              (False, fc1) \<Rightarrow> Some (Inr (Some annual_ids1, fc1, msgs))
                            | (True, fc1) \<Rightarrow> culprit_loop fuel fc_name 0 (Some annual_ids1) (fc1, msgs)))
              | None \<Rightarrow>
                  (case CalculateGeometryAttributes (\<lambda>p. True) INSIDE put_albers fc of
                     (False, fc1) \<Rightarrow> Some (Inr (annual_ids, fc1, msgs))
                   | (True, fc1) \<Rightarrow> culprit_loop fuel fc_name 0 annual_ids (fc1, msgs))))"
| "culprit_loop 0 fc_name i annual_ids (fc, msgs) = None"
| "culprit_loop (Suc fuel) fc_name i annual_ids (fc, msgs) =
     (if length fc \<le> i then Some (Inr (annual_ids, fc, msgs))
      else if X_Coord_m (fc ! i) = None then
        (let annual_id = annualID (fc ! i);
             fc1 = snd (CalculateGeometryAttributes (\<lambda>p. annualID p = annual_id) CENTROID put_albers fc)
         in case add_albers fuel fc_name (Some annual_id)
                   (if py_truthy_ids annual_ids then annual_ids else None) (fc1, msgs) of
              None \<Rightarrow> None
            | Some (Inl e) \<Rightarrow> Some (Inl e)
            | Some (Inr (annual_ids', fc', msgs')) \<Rightarrow>
                culprit_loop fuel fc_name (Suc i) annual_ids' (fc', msgs'))
      else culprit_loop fuel fc_name (Suc i) annual_ids (fc, msgs))"

definition add_utm_dd ::
  "(point \<Rightarrow> point) \<Rightarrow> (point \<Rightarrow> point) \<Rightarrow> (patch \<Rightarrow> bool) \<Rightarrow> point_kind \<Rightarrow> patch list
     \<Rightarrow> py_error + patch list" where
  \<comment> \<open>\<open>utm\<close> and \<open>dd\<close> project a point to UTM zone 10N and to NAD83 degrees; a tool that
      raises is not caught here\<close>
  "add_utm_dd utm dd sel coord_type fc =
     (case CalculateGeometryAttributes sel coord_type
             (\<lambda>pt p. p\<lparr>UTMX := Some (fst (utm pt)), UTMY := Some (snd (utm pt))\<rparr>) fc of
        (True, fc1) \<Rightarrow> Inl ExecuteError
      | (False, fc1) \<Rightarrow>
          (case CalculateGeometryAttributes sel coord_type
                  (\<lambda>pt p. p\<lparr>Longitude := Some (fst (dd pt)), Latitude := Some (snd (dd pt))\<rparr>) fc1 of
             (True, fc2) \<Rightarrow> Inl ExecuteError
           | (False, fc2) \<Rightarrow> Inr fc2))"

definition add_coords ::
  "nat \<Rightarrow> (point \<Rightarrow> point) \<Rightarrow> (point \<Rightarrow> point) \<Rightarrow> string \<Rightarrow> patch list \<times> msg list
     \<Rightarrow> (py_error + patch list \<times> msg list) option" where
  "add_coords fuel utm dd fc_name st =
     (let fc0 = map (\<lambda>p. p\<lparr>CoordType := Some ''Central point''\<rparr>) (fst st)
      in case add_albers fuel fc_name None None (fc0, snd st) of
           None \<Rightarrow> None
         | Some (Inl e) \<Rightarrow> Some (Inl e)
         | Some (Inr (annual_ids, fc1, msgs)) \<Rightarrow>
             Some (bind_err
                     (case annual_ids of
                        Some ids \<Rightarrow>
                          bind_err (add_utm_dd utm dd (\<lambda>p. annualID p \<in> set ids) CENTROID
                                      (map (\<lambda>p. if annualID p \<in> set ids
                                                then p\<lparr>CoordType := Some ''Centroid''\<rparr> else p) fc1))
                            (add_utm_dd utm dd (\<lambda>p. annualID p \<notin> set ids) INSIDE)
                      | None \<Rightarrow> add_utm_dd utm dd (\<lambda>p. True) INSIDE fc1)
                     (\<lambda>fc2. Inr (map (\<lambda>p. p\<lparr>Datum := Some ''NAD83''\<rparr>) fc2, msgs))))"

definition new_patch :: "int \<Rightarrow> point option \<Rightarrow> point \<Rightarrow> patch" where
  \<comment> \<open>a patch as it enters the deriver, the derived fields deleted\<close>
  "new_patch a ins cen =
     \<lparr>annualID = a, inside_pt = ins, centroid_pt = cen, CoordType = None, X_Coord_m = None,
      Y_Coord_m = None, UTMX = None, UTMY = None, Longitude = None, Latitude = None, Datum = None\<rparr>"

definition coords_view ::
  "(py_error + patch list \<times> msg list) option
     \<Rightarrow> (py_error + (int \<times> string option \<times> rat option \<times> rat option) list \<times> msg list) option" where
  \<comment> \<open>the identifier, coordinate type and equal-area coordinates of every patch, and the
      messages\<close>
  "coords_view r =
     map_option (map_sum id (\<lambda>(fc, msgs). (map (\<lambda>p. (annualID p, CoordType p, X_Coord_m p, Y_Coord_m p)) fc, msgs)))
       r"

definition patches_middle_fails :: "patch list" where
  \<comment> \<open>three patches; the central point of the second cannot be calculated\<close>
  "patches_middle_fails =
     [new_patch 1 (Some (10, 15)) (11, 16), new_patch 2 None (21, 26),
      new_patch 3 (Some (30, 35)) (31, 36)]"

definition patches_last_fails :: "patch list" where
  \<comment> \<open>three patches; the central point of the last cannot be calculated\<close>
  "patches_last_fails =
     [new_patch 1 (Some (10, 15)) (11, 16), new_patch 2 (Some (20, 25)) (21, 26),
      new_patch 3 None (31, 36)]"

section \<open>Export: extraction, cleaning and validation\<close>

text \<open>
  The data frame of \<^verbatim>\<open>expPatchesFunctions\<close>: its column names and its rows. A comparison
  of a null with a number is false and \<^verbatim>\<open>!=\<close> of a null with a text is true, as in a
  frame; under \<^verbatim>\<open>in\<close> and \<^verbatim>\<open>is not None\<close> a null is \<^verbatim>\<open>None\<close>, the null a cursor reads
  from a geodatabase. The valid change types, which the tool reads from the lookup table
  of the database, are the parameter \<open>change_types\<close>.
\<close>

record data_frame =
  columns :: "string list"
  rows :: "row list"

definition column :: "data_frame \<Rightarrow> string \<Rightarrow> cell list" where
  \<comment> \<open>\<^verbatim>\<open>csv_df[name]\<close>\<close>
  "column df name = map (\<lambda>r. r name) (rows df)"

definition repr_str_list :: "string list \<Rightarrow> string" where
  \<comment> \<open>what an f-string shows for a list of field names\<close>
  "repr_str_list xs = ''['' @ join_with '', '' (map (\<lambda>x. [CHR 0x27] @ x @ [CHR 0x27]) xs) @ '']''"

definition extract_data :: "'g feature_class \<Rightarrow> string list \<Rightarrow> data_frame \<times> msg list" where
  "extract_data patches_fc patches_fields =
     (let fc_fields = ListFields patches_fc;
          fields_to_export = filter (\<lambda>f. f \<in> set fc_fields) patches_fields;
          missing_fields = filter (\<lambda>f. f \<notin> set fc_fields) patches_fields;
          csv_data = map (\<lambda>x. (\<lambda>f. if f \<in> set fields_to_export then attr x f else NA))
                       (features patches_fc)
      in (\<lparr>columns = patches_fields, rows = csv_data\<rparr>,
          if 0 < length missing_fields
          then [AddWarning (''The following data.Patches fields were not found in the feature class: ''
                              @ repr_str_list missing_fields @ ''.'')]
          else []))"

definition flatten_breaks :: "string \<Rightarrow> string" where
  \<comment> \<open>\<^verbatim>\<open>replace(r'[\r\n]', ' ', regex=True)\<close> on one text\<close>
  "flatten_breaks s = map (\<lambda>c. if c = CHR 0x0D \<or> c = CHR 0x0A then CHR '' '' else c) s"

definition clean_row :: "row \<Rightarrow> row" where
  "clean_row r =
     (\<lambda>f. let v1 = (if f \<in> set [''Confidence'', ''DistYear''] \<and> r f = Num 0 then NA else r f);
               v2 = (if f \<in> set [''EventType'', ''ChangeType'', ''AltType'', ''ChangeDesc'', ''DistName'']
                        \<and> v1 = Txt '' '' then NA else v1)
           in case v2 of Txt s \<Rightarrow> Txt (flatten_breaks s) | v \<Rightarrow> v)"

definition clean_data :: "data_frame \<Rightarrow> data_frame" where
  \<comment> \<open>the three \<^verbatim>\<open>replace\<close> calls, applied to every row in turn\<close>
  "clean_data csv_df = csv_df\<lparr>rows := map clean_row (rows csv_df)\<rparr>"

definition check_mismatch :: "row \<Rightarrow> string list \<Rightarrow> string \<Rightarrow> string \<Rightarrow> cell \<times> cell" where
  \<comment> \<open>\<open>(NA, NA)\<close> is \<^verbatim>\<open>(None, None)\<close>\<close>
  "check_mismatch df_row valid_values column_to_check column_to_return =
     (if df_row column_to_check \<notin> set (map Txt valid_values)
      then (df_row column_to_check, df_row column_to_return)
      else (NA, NA))"

definition check_change_types :: "string list \<Rightarrow> data_frame \<Rightarrow> bool \<times> msg list" where
  "check_change_types change_types csv_df =
     (if list_all (\<lambda>c. c = NA) (column csv_df ''ChangeType'') then (False, [])
      else
        (let change_list = change_types @ ['' ''];
             changetype = map (\<lambda>df_row. check_mismatch df_row change_list ''ChangeType'' ''PatchName'')
                            (rows csv_df);
             alttype = map (\<lambda>df_row. check_mismatch df_row change_list ''AltType'' ''PatchName'')
                         (rows csv_df);
             mismatch_ct = filter (\<lambda>ct. fst ct \<noteq> NA) changetype;
             mismatch_at = filter (\<lambda>alt. fst alt \<noteq> NA) alttype;
             mismatches = mismatch_ct @ mismatch_at
         in if 0 < length mismatches
            then (True,
                  AddError ''Change types in feature class do not match change types in lookup.ChangeType.''
                  # map (\<lambda>mismatch. AddMessage (''PatchName: '' @ py_str (snd mismatch)
                                                    @ '', change type: '' @ py_str (fst mismatch)))
                      mismatches)
            else (False, [AddMessage ''No change type mismatches found.''])))"

fun num_less :: "cell \<Rightarrow> int \<Rightarrow> bool" where
  \<comment> \<open>\<^verbatim>\<open>column < k\<close> on one value\<close>
  "num_less (Num n) k = (n < k)"
| "num_less c k = False"

fun num_greater :: "cell \<Rightarrow> int \<Rightarrow> bool" where
  \<comment> \<open>\<^verbatim>\<open>column > k\<close> on one value\<close>
  "num_greater (Num n) k = (k < n)"
| "num_greater c k = False"

definition check_confidence :: "data_frame \<Rightarrow> bool \<Rightarrow> bool \<times> msg list" where
  "check_confidence csv_df only_values =
     (let events = filter (\<lambda>r. r ''EventType'' \<noteq> Txt '' '' \<and> r ''EventType'' \<noteq> NA) (rows csv_df)
      in if length events = 0 then (False, [])
         else
           (let con_ck = filter (\<lambda>r. num_less (r ''Confidence'') 1 \<or> num_greater (r ''Confidence'') 3)
                           events;
                (no_export, msgs) =
                  (if 0 < length con_ck
                   then (True,
                         [AddError ''Confidence value does not pass validation rule of Confidence >= 1 and <=3.'',
                          AddMessage (''There are '' @ str_int (int (length con_ck))
                                        @ '' patches with invalid confidence values.'')])
                   else (False,
                         [AddMessage ''Confidence values for Events pass the data table validation rule.'']))
            in if \<not> only_values then
                 (let conf_1_2 = filter (\<lambda>r. num_less (r ''Confidence'') 3 \<and> r ''EventType'' \<noteq> Txt ''Mask'')
                                   events;
                      conf_alttype = filter (\<lambda>r. r ''AltType'' = NA) conf_1_2;
                      conf_alttype_patches = map (\<lambda>r. r ''PatchName'') conf_alttype
                  in if 0 < length conf_alttype_patches
                     then (True,
                           msgs @ AddError ''There are Events with a Confidence of 1 or 2 with no AltType:''
                                  # map (\<lambda>patch. AddMessage (''PatchName: '' @ py_str patch))
                                      conf_alttype_patches)
                     else (no_export,
                           msgs @ [AddMessage ''Confidence values for Events with AltTypes passed validation.'']))
               else (no_export, msgs)))"

definition check_duplicate_patch_names :: "data_frame \<Rightarrow> bool \<times> msg list" where
  \<comment> \<open>\<^verbatim>\<open>duplicated(subset=['PatchName'], keep=False)\<close> marks every row whose PatchName
      occurs more than once\<close>
  "check_duplicate_patch_names csv_df =
     (let names = column csv_df ''PatchName'';
          duplicate_patches = filter (\<lambda>c. 1 < count_list names c) names
      in if 0 < length duplicate_patches
         then (True,
               AddError ''There are duplicate patch names in the dataset.''
               # map (\<lambda>patch. AddMessage (''PatchName: '' @ py_str patch)) duplicate_patches)
         else (False, [AddMessage ''There are no duplicate patch names in the dataset.'']))"

definition check_fields_have_values :: "data_frame \<Rightarrow> string list \<Rightarrow> bool \<times> msg list" where
  "check_fields_have_values csv_df value_fields =
     (let missing_values =
            filter (\<lambda>field. list_ex (\<lambda>c. c = NA) (column csv_df field)
                             \<or> list_ex (\<lambda>c. c = Txt '' '') (column csv_df field))
              value_fields
      in if 0 < length missing_values
         then (True,
               AddError ''There are fields with missing values.''
               # map (\<lambda>v. AddMessage (''Field: '' @ v)) missing_values)
         else (False, [AddMessage ''No fields with missing values were found.'']))"

definition primary_validation ::
  "string list \<Rightarrow> 'g feature_class \<Rightarrow> string list \<Rightarrow> bool \<Rightarrow> bool \<times> data_frame \<times> msg list" where
  \<comment> \<open>the three checks all run, on the same frame, before their flags are combined\<close>
  "primary_validation change_types patches_fc patches_fields csv_exp =
     (let (df0, msgs0) = extract_data patches_fc patches_fields;
          csv_df = (if csv_exp then clean_data df0
                    else df0\<lparr>rows := filter (\<lambda>r. r ''EventType'' \<noteq> NA \<and> r ''EventType'' \<noteq> Txt ''Mask''
                                                  \<and> r ''EventType'' \<noteq> Txt ''Model'') (rows df0)\<rparr>);
          (no_export_change_type, msgs1) = check_change_types change_types csv_df;
          (no_export_conf, msgs2) = check_confidence csv_df csv_exp;
          (no_export_dup_patch_names, msgs3) = check_duplicate_patch_names csv_df;
          no_export = (no_export_conf \<or> no_export_change_type \<or> no_export_dup_patch_names)
      in (no_export, csv_df, msgs0 @ msgs1 @ msgs2 @ msgs3))"

section \<open>Export: writing, and the export tool\<close>

text \<open>
  What the export can see and change outside the geodatabase: the directories and files
  that exist, and the messages shown to the operator. A path is joined with one separator.
\<close>

record world =
  dirs :: "string list"
  files :: "string list"
  messages :: "msg list"

definition os_path_join :: "string \<Rightarrow> string \<Rightarrow> string" where
  "os_path_join a b = a @ ''/'' @ b"

definition os_path_basename :: "string \<Rightarrow> string" where
  "os_path_basename p = rev (takeWhile (\<lambda>c. c \<noteq> CHR ''/'') (rev p))"

definition existing_paths :: "world \<Rightarrow> string list" where
  "existing_paths w = dirs w @ files w"

definition os_path_exists :: "world \<Rightarrow> string \<Rightarrow> bool" where
  "os_path_exists w p = (p \<in> set (existing_paths w))"

definition longest :: "string list \<Rightarrow> nat" where
  "longest ps = foldr (\<lambda>p m. max (length p) m) ps 0"

definition patches_fields :: "string list" where
  \<comment> \<open>the list of \<^verbatim>\<open>export_patches_csv\<close>\<close>
  "patches_fields =
     [''Park'', ''PatchName'', ''yod'', ''annualID'', ''X_Coord_m'', ''Y_Coord_m'', ''Latitude'',
      ''Longitude'', ''UTMX'', ''UTMY'', ''CoordType'', ''idxMagMn'', ''durMn'', ''durSd'', ''area'',
      ''perim'', ''paratio'', ''Watershed'', ''WildName'', ''LandMgmt'', ''EastWest'', ''ElevMean'',
      ''SlopeMean'', ''Aspect'', ''Protected'', ''InBuffer'', ''InPark'', ''InMask'', ''VegCode'',
      ''DistYear'', ''DistName'', ''OverlapPrv'', ''Split'', ''EventType'', ''ChangeType'',
      ''Confidence'', ''AltType'', ''ChangeDesc'', ''EventDate'', ''LabeledBy'', ''PriorRun'',
      ''PostDist'']"

definition exp_fields :: "string list" where
  \<comment> \<open>the list of \<^verbatim>\<open>export_patches_shp\<close>\<close>
  "exp_fields =
     [''AltType'', ''ChangeDesc'', ''ChangeType'', ''Confidence'', ''DistYear'', ''DistName'',
      ''EventType'', ''InBuffer'', ''InMask'', ''InPark'', ''MAJORAXIS'', ''MINORAXIS'',
      ''ORIENTATION'', ''Aspect'', ''PatchName'', ''Protected'', ''THICKNESS'', ''X_Coord_m'',
      ''Y_Coord_m'', ''Latitude'', ''Longitude'', ''paratio'', ''Park'', ''annualID'', ''area'',
      ''perim'', ''shape_1'', ''index'', ''uniqID'', ''yod'', ''durMn'', ''durSd'', ''idxMagMn'',
      ''idxMagSd'', ''tcbMagMn'', ''tcbMagSd'', ''tcbPreMn'', ''tcbPreSd'', ''tcbPst01Mn'',
      ''tcbPst01Sd'', ''tcbPst03Mn'', ''tcbPst03Sd'', ''tcbPst07Mn'', ''tcbPst07Sd'', ''tcbPst15Mn'',
      ''tcbPst15Sd'', ''tcbPstMn'', ''tcbPstSd'', ''tcgMagMn'', ''tcgMagSd'', ''tcgPreMn'',
      ''tcgPreSd'', ''tcgPst01Mn'', ''tcgPst01Sd'', ''tcgPst03Mn'', ''tcgPst03Sd'', ''tcgPst07Mn'',
      ''tcgPst07Sd'', ''tcgPst15Mn'', ''tcgPst15Sd'', ''tcgPstMn'', ''tcgPstSd'', ''tcwMagMn'',
      ''tcwMagSd'', ''tcwPreMn'', ''tcwPreSd'', ''tcwPst01Mn'', ''tcwPst01Sd'', ''tcwPst03Mn'',
      ''tcwPst03Sd'', ''tcwPst07Mn'', ''tcwPst07Sd'', ''tcwPst15Mn'', ''tcwPst15Sd'', ''tcwPstMn'',
      ''tcwPstSd'', ''Shape_Area'', ''Shape_Length'']"

definition no_check_fields :: "string list" where
  "no_check_fields = [''AltType'', ''ChangeDesc'', ''DistYear'', ''DistName'']"

definition export_patches_csv ::
  "string list \<Rightarrow> string \<Rightarrow> 'g feature_class \<Rightarrow> string \<Rightarrow> world \<Rightarrow> bool \<times> world" where
  \<comment> \<open>\<open>patches_fc\<close> is the path of the feature class \<open>fc\<close>; writing the CSV creates the
      file \<open>out_fp\<close>\<close>
  "export_patches_csv change_types patches_fc fc out_fp w =
     (let (no_export, csv_df, msgs) = primary_validation change_types fc patches_fields True
      in if no_export
         then (no_export,
               w\<lparr>messages := messages w @ msgs
                     @ [AddError (''Validation error(s). '' @ patches_fc @ '' NOT exported to CSV.'')]\<rparr>)
         else (no_export,
               w\<lparr>files := files w @ [out_fp],
                 messages := messages w @ msgs @ [AddMessage (''Patches saved to: '' @ out_fp @ ''.'')]\<rparr>))"

function fresh_shp_name :: "string list \<Rightarrow> string \<Rightarrow> string \<Rightarrow> string" where
  \<comment> \<open>\<^verbatim>\<open>while os.path.exists(shp_folder): temp_fc = f"{temp_fc}_1"; shp_folder = ...\<close>\<close>
  "fresh_shp_name existing out_folder temp_fc =
     (if os_path_join out_folder temp_fc \<in> set existing
      then fresh_shp_name existing out_folder (temp_fc @ ''_1'')
      else temp_fc)"
  by pat_completeness auto
termination
proof (relation "measure (\<lambda>(existing, out_folder, temp_fc).
                   Suc (longest existing) - length (os_path_join out_folder temp_fc))")
  show "wf (measure (\<lambda>(existing, out_folder, temp_fc).
                   Suc (longest existing) - length (os_path_join out_folder temp_fc)))"
    by simp
next
  fix existing :: "string list" and out_folder temp_fc :: string
  assume ex: "os_path_join out_folder temp_fc \<in> set existing"
  have bound: "p \<in> set ps \<Longrightarrow> length p \<le> longest ps" for p :: string and ps
    by (induction ps) (auto simp: longest_def)
  from bound[OF ex]
  show "((existing, out_folder, temp_fc @ ''_1''), (existing, out_folder, temp_fc))
      \<in> measure (\<lambda>(existing, out_folder, temp_fc).
                   Suc (longest existing) - length (os_path_join out_folder temp_fc))"
    by (simp add: os_path_join_def)
qed

definition exp_shp_spec_fields :: "string \<Rightarrow> string \<Rightarrow> world \<Rightarrow> string \<times> world" where
  \<comment> \<open>the folder is made and the shapefile of the event patches is written into it\<close>
  "exp_shp_spec_fields patches_fc out_folder w =
     (let patches_fc_name = os_path_basename patches_fc;
          temp_fc = fresh_shp_name (existing_paths w) out_folder (patches_fc_name @ ''_GEE'');
          shp_folder = os_path_join out_folder temp_fc
      in (shp_folder,
          w\<lparr>dirs := dirs w @ [shp_folder],
            files := files w @ [os_path_join shp_folder (temp_fc @ ''.shp'')]\<rparr>))"

definition export_patches_shp ::
  "string list \<Rightarrow> string \<Rightarrow> 'g feature_class \<Rightarrow> string \<Rightarrow> world \<Rightarrow> bool option \<times> world" where
  \<comment> \<open>the value returned is \<open>None\<close> for Python's \<^verbatim>\<open>None\<close>: \<^verbatim>\<open>return no_export\<close> stands
      inside the \<^verbatim>\<open>else\<close> branch only\<close>
  "export_patches_shp change_types patches_fc fc out_folder w =
     (let (no_export0, csv_df, msgs) = primary_validation change_types fc exp_fields False;
          value_fields = filter (\<lambda>field. field \<notin> set no_check_fields) exp_fields;
          (no_export_values, msgs4) = check_fields_have_values csv_df value_fields;
          no_export = (no_export0 \<or> no_export_values)
      in if no_export
         then (None,
               w\<lparr>messages := messages w @ msgs @ msgs4
                     @ [AddError (''Validation error(s). '' @ patches_fc @ '' NOT exported to CSV.'')]\<rparr>)
         else (let (out_shp, w1) = exp_shp_spec_fields patches_fc out_folder w
               in (Some no_export,
                   w1\<lparr>messages := messages w @ msgs @ msgs4
                          @ [AddMessage (''Shapefile saved to: '' @ out_shp @ ''.'')]\<rparr>)))"

function next_csv_path :: "string list \<Rightarrow> string \<Rightarrow> string \<Rightarrow> string \<Rightarrow> string" where
  \<comment> \<open>\<^verbatim>\<open>while os.path.exists(out_fp): out_file = f"{out_file[:-4]}_1.csv";
      out_fp = os.path.join(csv_out_folder, out_file)\<close>\<close>
  "next_csv_path existing csv_out_folder out_file out_fp =
     (if out_fp \<in> set existing
      then (let out_file' = take (length out_file - 4) out_file @ ''_1.csv''
            in next_csv_path existing csv_out_folder out_file' (os_path_join csv_out_folder out_file'))
      else out_fp)"
  by pat_completeness auto
termination
proof (relation "measure (\<lambda>(existing, csv_out_folder, out_file, out_fp).
                   if out_fp = os_path_join csv_out_folder out_file
                   then longest existing + 3 - length out_fp else longest existing + 4)")
  show "wf (measure (\<lambda>(existing, csv_out_folder, out_file, out_fp).
                   if out_fp = os_path_join csv_out_folder out_file
                   then longest existing + 3 - length out_fp else longest existing + 4))"
    by simp
next
  fix existing :: "string list" and csv_out_folder out_file out_fp out_file' :: string
  assume ex: "out_fp \<in> set existing"
    and new: "out_file' = take (length out_file - 4) out_file @ ''_1.csv''"
  have bound: "p \<in> set ps \<Longrightarrow> length p \<le> longest ps" for p :: string and ps
    by (induction ps) (auto simp: longest_def)
  have grow: "length out_file < length out_file'"
    by (simp add: new)
  from bound[OF ex] grow
  show "((existing, csv_out_folder, out_file', os_path_join csv_out_folder out_file'),
         (existing, csv_out_folder, out_file, out_fp))
      \<in> measure (\<lambda>(existing, csv_out_folder, out_file, out_fp).
                   if out_fp = os_path_join csv_out_folder out_file
                   then longest existing + 3 - length out_fp else longest existing + 4)"
    by (auto simp: os_path_join_def)
qed

definition py_or :: "bool option \<Rightarrow> bool option \<Rightarrow> bool option" where
  \<comment> \<open>Python's \<^verbatim>\<open>a or b\<close> on values that are \<^verbatim>\<open>True\<close>, \<^verbatim>\<open>False\<close> or \<^verbatim>\<open>None\<close>\<close>
  "py_or a b = (if a = Some True then a else b)"

definition export_csv_step ::
  "string list \<Rightarrow> string \<Rightarrow> (string \<Rightarrow> 'g feature_class) \<Rightarrow> string \<Rightarrow> string
     \<Rightarrow> world \<times> bool \<Rightarrow> world \<times> bool" where
  \<comment> \<open>the \<^verbatim>\<open>if export_csv:\<close> block of the loop of \<^verbatim>\<open>ExportPatches.py\<close> for the feature
      class named \<open>fc\<close>; \<open>gdb\<close> gives the contents of a feature class of the run
      geodatabase by name. The state is the world and the flag \<^verbatim>\<open>no_export_csv\<close>\<close>
  "export_csv_step change_types run_gdb gdb csv_out_folder fc st =
     (let (w, no_export_csv) = st;
          patches_fc = os_path_join run_gdb fc;
          park_code = take 4 fc;
          (csv_save_folder, w') =
            (if os_path_join csv_out_folder park_code \<in> set (dirs w)
             then (os_path_join csv_out_folder park_code, w)
             else (let s = os_path_join csv_out_folder ''Patches_CSV''
                   in (s, if os_path_exists w s then w else w\<lparr>dirs := dirs w @ [s]\<rparr>)));
          patches_name = os_path_basename patches_fc;
          years = drop (length patches_name - 9) patches_name;
          out_file = park_code @ ''_patches_'' @ years @ ''.csv'';
          out_fp = next_csv_path (existing_paths w') csv_out_folder out_file
                     (os_path_join csv_save_folder out_file);
          (no_export_csv_fc, w'') = export_patches_csv change_types patches_fc (gdb fc) out_fp w'
      in (w'', no_export_csv \<or> no_export_csv_fc))"

definition export_gee_step ::
  "string list \<Rightarrow> string \<Rightarrow> (string \<Rightarrow> 'g feature_class) \<Rightarrow> string \<Rightarrow> string
     \<Rightarrow> world \<times> bool option \<Rightarrow> world \<times> bool option" where
  \<comment> \<open>the \<^verbatim>\<open>if export_gee:\<close> block; the state is the world and the flag
      \<^verbatim>\<open>no_export_gee\<close>, a Python value\<close>
  "export_gee_step change_types run_gdb gdb gee_out_folder fc st =
     (let (w, no_export_gee) = st;
          patches_fc = os_path_join run_gdb fc;
          (no_export_gee_fc, w') = export_patches_shp change_types patches_fc (gdb fc) gee_out_folder w
      in (w', py_or no_export_gee no_export_gee_fc))"

definition export_one ::
  "string list \<Rightarrow> string \<Rightarrow> (string \<Rightarrow> 'g feature_class) \<Rightarrow> bool \<Rightarrow> string \<Rightarrow> bool \<Rightarrow> string \<Rightarrow> string
     \<Rightarrow> world \<times> bool \<times> bool option \<Rightarrow> world \<times> bool \<times> bool option" where
  \<comment> \<open>one pass of the loop over the feature classes\<close>
  "export_one change_types run_gdb gdb export_csv csv_out_folder export_gee gee_out_folder fc st =
     (let (w, no_export_csv, no_export_gee) = st;
          (w1, no_export_csv1) =
            (if export_csv
             then export_csv_step change_types run_gdb gdb csv_out_folder fc (w, no_export_csv)
             else (w, no_export_csv));
          (w2, no_export_gee1) =
            (if export_gee
             then export_gee_step change_types run_gdb gdb gee_out_folder fc (w1, no_export_gee)
             else (w1, no_export_gee))
      in (w2, no_export_csv1, no_export_gee1))"

definition export_patches_tool ::
  "string list \<Rightarrow> string \<Rightarrow> (string \<Rightarrow> 'g feature_class) \<Rightarrow> string list \<Rightarrow> bool \<Rightarrow> string \<Rightarrow> bool
     \<Rightarrow> string \<Rightarrow> world \<Rightarrow> py_error + world" where
  \<comment> \<open>\<^verbatim>\<open>ExportPatches.py\<close> from the flags' initialisation on; \<open>Inl ExecuteError\<close> is the
      \<^verbatim>\<open>raise arcpy.ExecuteError\<close> of its last line\<close>
  "export_patches_tool change_types run_gdb gdb patches_fcs export_csv csv_out_folder export_gee
       gee_out_folder w =
     (let (w', no_export_csv, no_export_gee) =
            fold (export_one change_types run_gdb gdb export_csv csv_out_folder export_gee gee_out_folder)
              patches_fcs (w, False, Some False)
      in if py_or (Some no_export_csv) no_export_gee = Some True
         then Inl ExecuteError
         else Inr w')"

definition event_row :: "string \<Rightarrow> cell \<Rightarrow> cell \<Rightarrow> cell \<Rightarrow> cell \<Rightarrow> row" where
  \<comment> \<open>a row with a value in every field, given its PatchName, EventType, ChangeType,
      Confidence and AltType\<close>
  "event_row name event_type change_type confidence alt_type =
     (\<lambda>f. Num 1)(''PatchName'' := Txt name, ''EventType'' := event_type, ''ChangeType'' := change_type,
                 ''Confidence'' := confidence, ''AltType'' := alt_type)"

definition export_fc :: "row list \<Rightarrow> unit feature_class" where
  \<comment> \<open>a cumulative feature class that has every field either export asks for\<close>
  "export_fc rs =
     \<lparr>fc_fields = map (\<lambda>n. (n, TEXT)) (patches_fields @ exp_fields),
      features = map (\<lambda>r. \<lparr>Shape = (), attr = r\<rparr>) rs\<rparr>"

definition empty_world :: world where
  "empty_world = \<lparr>dirs = [], files = [], messages = []\<rparr>"

section \<open>Properties\<close>

lemma py_round_near: "\<bar>of_int (py_round x) - x\<bar> \<le> 1 / 2"
proof -
  have lo: "of_int \<lfloor>x\<rfloor> \<le> x" by simp
  have hi: "x < of_int \<lfloor>x\<rfloor> + 1" by linarith
  have "\<bar>of_int (\<lfloor>x\<rfloor> + 1) - x\<bar> \<le> 1 / 2" if "1 / 2 \<le> x - of_int \<lfloor>x\<rfloor>"
    using that hi by (simp add: abs_if; linarith)
  moreover have "\<bar>of_int \<lfloor>x\<rfloor> - x\<bar> \<le> 1 / 2" if "x - of_int \<lfloor>x\<rfloor> \<le> 1 / 2"
    using that lo by (simp add: abs_if; linarith)
  ultimately show ?thesis
    unfolding py_round_def Let_def by (cases "x - of_int \<lfloor>x\<rfloor> < 1 / 2") auto
qed

lemma py_round_of_int: "py_round (of_int k) = k"
  by (simp add: py_round_def)

lemma update_twice: "update (update orig new) new = update orig new"
  by (simp add: update_def)

text \<open>
  C7. One pass over the table leaves a stored value that already equals the geometry's
  alone and replaces any other by the geometry's value rounded to a nearest integer
  (at most one half away); a second pass changes nothing.
\<close>

theorem update_area_perim_idempotent:
  "update_area_perim (update_area_perim patches_fc) = update_area_perim patches_fc
   \<and> map area (update_area_perim patches_fc) =
       map (\<lambda>r. if area r = Some (Shape_Area r) then area r
                 else Some (of_int (py_round (Shape_Area r)))) patches_fc
   \<and> map perim (update_area_perim patches_fc) =
       map (\<lambda>r. if perim r = Some (Shape_Length r) then perim r
                 else Some (of_int (py_round (Shape_Length r)))) patches_fc
   \<and> map Shape_Area (update_area_perim patches_fc) = map Shape_Area patches_fc
   \<and> map Shape_Length (update_area_perim patches_fc) = map Shape_Length patches_fc
   \<and> \<bar>of_int (py_round x) - x\<bar> \<le> 1 / 2"
proof -
  have near: "\<bar>of_int (py_round x) - x\<bar> \<le> 1 / 2"
    by (rule py_round_near)
  have rest: "update_area_perim (update_area_perim patches_fc) = update_area_perim patches_fc
   \<and> map area (update_area_perim patches_fc) =
       map (\<lambda>r. if area r = Some (Shape_Area r) then area r
                 else Some (of_int (py_round (Shape_Area r)))) patches_fc
   \<and> map perim (update_area_perim patches_fc) =
       map (\<lambda>r. if perim r = Some (Shape_Length r) then perim r
                 else Some (of_int (py_round (Shape_Length r)))) patches_fc
   \<and> map Shape_Area (update_area_perim patches_fc) = map Shape_Area patches_fc
   \<and> map Shape_Length (update_area_perim patches_fc) = map Shape_Length patches_fc"
    by (simp add: update_area_perim_def calc_area_def calc_perim_def update_def comp_def)
  from rest near show ?thesis by blast
qed

subsection \<open>The tabular store\<close>






lemma ListFields_AddField:
  "set (ListFields (AddField f ty fc)) = insert f (set (ListFields fc))"
  by (auto simp: AddField_def ListFields_def)



subsection \<open>Identity and naming\<close>



subsection \<open>Event labels\<close>

lemma ListFields_features_update [simp]: "ListFields (fc\<lparr>features := xs\<rparr>) = ListFields fc"
  by (simp add: ListFields_def)

lemma field_type_features_update [simp]: "field_type (fc\<lparr>features := xs\<rparr>) = field_type fc"
  by (simp add: field_type_def fun_eq_iff)

lemma AddField_present: "f \<in> set (ListFields fc) \<Longrightarrow> AddField f ty fc = fc"
  by (simp add: AddField_def)

lemma calc_features_const:
  "coerce ty v = Some w \<Longrightarrow>
   calc_features sel f ty (\<lambda>r. Some v) xs = Some (map (\<lambda>x. if sel x then set_attr f w x else x) xs)"
  by (induction xs) auto

lemma CalculateField_const:
  assumes "f \<in> set (ListFields fc)" and "coerce (field_type fc f) v = Some w"
  shows "CalculateField sel f ty (\<lambda>r. Some v) fc
     = Inr (fc\<lparr>features := map (\<lambda>x. if sel x then set_attr f w x else x) (features fc)\<rparr>)"
  using assms by (simp add: CalculateField_def AddField_present calc_features_const)

lemma add_annual_var_stamps:
  assumes sch: "event_schema fc"
    and stable: "\<And>x f v. f \<in> set labelled_fields \<Longrightarrow> sel (set_attr f v x) = sel x"
  shows "add_annual_var sel today fc
     = Inr (fc\<lparr>features := map (\<lambda>x. if sel x then x\<lparr>attr := mask_label today (attr x)\<rparr> else x) (features fc)\<rparr>)"
proof -
  have st: "sel (set_attr f v x) = sel x" if "f \<in> set labelled_fields" for f v x
    using stable that by blast
  have two: "coerce SHORT (Txt ''2'') = Some (Num 2)" "coerce SHORT (Txt ''0'') = Some (Num 0)"
    by simp_all
  have strs: "str_int 2 = ''2''" "str_int 0 = ''0''"
    by (simp_all add: str_int_def string_of_nat.simps)
  show ?thesis
    using sch
    apply (simp add: add_annual_var_def event_schema_def labelled_fields_def bind_err_def
        CalculateField_const strs two)
    apply (rule arg_cong[where f="\<lambda>xs. fc\<lparr>features := xs\<rparr>"])
    apply (rule map_cong[OF refl])
    apply (simp add: st labelled_fields_def)
    apply (simp add: set_attr_def mask_label_def)
    done
qed

lemma fold_AddField_fresh:
  "distinct (map fst nts) \<Longrightarrow> set (map fst nts) \<inter> set (ListFields fc) = {} \<Longrightarrow>
   fold (\<lambda>(n, ty). AddField n ty) nts fc
     = fc\<lparr>fc_fields := fc_fields fc @ nts,
          features := map (\<lambda>x. x\<lparr>attr := (\<lambda>f. if f \<in> fst ` set nts then NA else attr x f)\<rparr>)
                        (features fc)\<rparr>"
proof (induction nts arbitrary: fc)
  case Nil
  then show ?case by simp
next
  case (Cons nt nts)
  obtain n ty where nt: "nt = (n, ty)" by (cases nt)
  have fresh: "n \<notin> set (ListFields fc)" using Cons.prems(2) nt by auto
  have step: "AddField n ty fc
      = fc\<lparr>fc_fields := fc_fields fc @ [(n, ty)], features := map (set_attr n NA) (features fc)\<rparr>"
    using fresh by (simp add: AddField_def)
  have d: "distinct (map fst nts)" using Cons.prems(1) by simp
  have i: "set (map fst nts) \<inter> set (ListFields (AddField n ty fc)) = {}"
    using Cons.prems nt by (auto simp: step ListFields_def)
  show ?case
    unfolding nt fold_Cons comp_def prod.case Cons.IH[OF d i]
    by (auto simp: step set_attr_def fun_eq_iff)
qed

lemma add_event_fields_fresh:
  assumes "set event_field_names \<inter> set (ListFields fc) = {}"
  shows "add_event_fields fc
     = Inr (fc\<lparr>fc_fields := fc_fields fc @ zip event_field_names event_field_types,
              features := map (\<lambda>x. x\<lparr>attr := events_blank (attr x)\<rparr>) (features fc)\<rparr>)"
proof -
  have names: "map fst (zip event_field_names event_field_types) = event_field_names"
    by (simp add: event_field_names_def event_field_types_def)
  have d: "distinct (map fst (zip event_field_names event_field_types))"
    unfolding names by (simp add: event_field_names_def)
  have i: "set (map fst (zip event_field_names event_field_types)) \<inter> set (ListFields fc) = {}"
    unfolding names using assms .
  have img: "fst ` set (zip event_field_names event_field_types) = set event_field_names"
    using names by (metis set_map)
  define fc0 where "fc0 = fold (\<lambda>(n, ty). AddField n ty) (zip event_field_names event_field_types) fc"
  have fc0: "fc0 = fc\<lparr>fc_fields := fc_fields fc @ zip event_field_names event_field_types,
          features := map (\<lambda>x. x\<lparr>attr := (\<lambda>f. if f \<in> set event_field_names then NA else attr x f)\<rparr>)
                        (features fc)\<rparr>"
    unfolding fc0_def fold_AddField_fresh[OF d i] img ..
  have inS: "''Split'' \<in> set (ListFields fc0)"
    by (simp add: fc0 ListFields_def names) (simp add: event_field_names_def)
  have "map_of (fc_fields fc) ''Split'' = None"
    using assms by (auto simp: ListFields_def map_of_eq_None_iff event_field_names_def)
  then have ty: "field_type fc0 ''Split'' = SHORT"
    by (simp add: fc0 field_type_def map_add_def event_field_names_def event_field_types_def)
  have "add_event_fields fc = CalculateField (\<lambda>x. True) ''Split'' TEXT (\<lambda>r. Some (Num 0)) fc0"
    by (simp add: add_event_fields_def fc0_def)
  also have "\<dots> = Inr (fc0\<lparr>features := map (\<lambda>x. if True then set_attr ''Split'' (Num 0) x else x) (features fc0)\<rparr>)"
    by (rule CalculateField_const[OF inS]) (simp add: ty)
  finally show ?thesis
    by (simp add: fc0 comp_def set_attr_def events_blank_def fun_eq_iff)
qed

lemma event_schema_after_add:
  assumes "set event_field_names \<inter> set (ListFields fc) = {}"
  shows "event_schema (fc\<lparr>fc_fields := fc_fields fc @ zip event_field_names event_field_types,
              features := xs\<rparr>)"
proof -
  have none: "map_of (fc_fields fc) n = None" if "n \<in> set event_field_names" for n
    using assms that by (auto simp: ListFields_def map_of_eq_None_iff)
  have sub: "set labelled_fields \<subseteq> set event_field_names"
    by (simp add: labelled_fields_def event_field_names_def)
  have ty: "field_type (fc\<lparr>fc_fields := fc_fields fc @ zip event_field_names event_field_types,
              features := xs\<rparr>) n = the (map_of (zip event_field_names event_field_types) n)"
    if "n \<in> set labelled_fields" for n
  proof -
    have 1: "n \<in> set event_field_names" using that sub by blast
    then obtain t where "map_of (zip event_field_names event_field_types) n = Some t"
      by (auto simp: event_field_names_def event_field_types_def)
    then show ?thesis by (simp add: field_type_def map_add_def none[OF 1])
  qed
  have "map (field_type (fc\<lparr>fc_fields := fc_fields fc @ zip event_field_names event_field_types,
              features := xs\<rparr>)) labelled_fields
      = map (\<lambda>n. the (map_of (zip event_field_names event_field_types) n)) labelled_fields"
    by (rule map_cong[OF refl]) (rule ty)
  also have "\<dots> = [TEXT, TEXT, SHORT, TEXT, TEXT, SHORT, SHORT]"
    by (simp add: labelled_fields_def event_field_names_def event_field_types_def)
  finally have types: "map (field_type (fc\<lparr>fc_fields := fc_fields fc @ zip event_field_names event_field_types,
              features := xs\<rparr>)) labelled_fields = [TEXT, TEXT, SHORT, TEXT, TEXT, SHORT, SHORT]" .
  have "map fst (zip event_field_names event_field_types) = event_field_names"
    by (simp add: event_field_names_def event_field_types_def)
  then have "set (ListFields (fc\<lparr>fc_fields := fc_fields fc @ zip event_field_names event_field_types,
              features := xs\<rparr>)) = set (ListFields fc) \<union> set event_field_names"
    by (simp add: ListFields_def)
  with sub types show ?thesis
    unfolding event_schema_def by blast
qed

text \<open>
  C4. With event labelling switched on, on a yearly dataset that has no event fields yet
  (and has InMask unless the park is LEWI), the labeller succeeds and leaves every patch
  that is completely within the water mask, or has InMask = 1, with EventType "Mask",
  ChangeType "Annual Variability", Confidence 2, EventDate the date read by the call that
  labelled it last, LabeledBy "Geoprocessing", PriorRun 0 and PostDist 0; every other
  patch keeps these seven fields null.
\<close>

theorem mask_patches_labelled:
  assumes fresh: "set event_field_names \<inter> set (ListFields patches_fc) = {}"
    and mask: "park = ''LEWI'' \<or> ''InMask'' \<in> set (ListFields patches_fc)"
  shows "\<exists>fc'. event_labeler True park within_water d1 d2 patches_fc = Inr fc'
     \<and> map Shape (features fc') = map Shape (features patches_fc)
     \<and> map (\<lambda>x. map (attr x) [''EventType'', ''ChangeType'', ''Confidence'', ''EventDate'',
                                 ''LabeledBy'', ''PriorRun'', ''PostDist'']) (features fc')
       = map (\<lambda>x. if within_water (Shape x)
                   then [Txt ''Mask'', Txt ''Annual Variability'', Num 2, Txt d2,
                         Txt ''Geoprocessing'', Num 0, Num 0]
                 else if park \<noteq> ''LEWI'' \<and> attr x ''InMask'' = Num 1
                   then [Txt ''Mask'', Txt ''Annual Variability'', Num 2, Txt d1,
                         Txt ''Geoprocessing'', Num 0, Num 0]
                 else [NA, NA, NA, NA, NA, NA, NA])
           (features patches_fc)"
proof -
  define fc1 where "fc1 = patches_fc\<lparr>fc_fields := fc_fields patches_fc @ zip event_field_names event_field_types,
              features := map (\<lambda>x. x\<lparr>attr := events_blank (attr x)\<rparr>) (features patches_fc)\<rparr>"
  have a1: "add_event_fields patches_fc = Inr fc1"
    unfolding fc1_def by (rule add_event_fields_fresh[OF fresh])
  have s1: "event_schema fc1"
    unfolding fc1_def by (rule event_schema_after_add[OF fresh])
  define sel1 :: "'a feature \<Rightarrow> bool" where "sel1 = (\<lambda>x. attr x ''InMask'' = Num 1)"
  define sel2 :: "'a feature \<Rightarrow> bool" where "sel2 = (\<lambda>x. within_water (Shape x))"
  have st1: "sel1 (set_attr f v x) = sel1 x" if "f \<in> set labelled_fields" for f v x
    using that by (auto simp: sel1_def set_attr_def labelled_fields_def)
  have st2: "sel2 (set_attr f v x) = sel2 x" for f v x
    by (simp add: sel2_def set_attr_def)
  define fc2 where "fc2 = (if park \<noteq> ''LEWI''
      then fc1\<lparr>features := map (\<lambda>x. if sel1 x then x\<lparr>attr := mask_label d1 (attr x)\<rparr> else x) (features fc1)\<rparr>
      else fc1)"
  have a2: "(if park \<noteq> ''LEWI'' then label_elev_mask d1 fc1 else Inr fc1) = Inr fc2"
  proof (cases "park = ''LEWI''")
    case True
    then show ?thesis by (simp add: fc2_def)
  next
    case False
    then have "''InMask'' \<in> set (ListFields fc1)"
      using mask by (simp add: fc1_def ListFields_def)
    then show ?thesis
      using False add_annual_var_stamps[where sel=sel1 and today=d1, OF s1 st1]
      by (simp add: label_elev_mask_def fc2_def sel1_def)
  qed
  have s2: "event_schema fc2"
    using s1 by (simp add: fc2_def event_schema_def)
  have a3: "label_water_mask within_water d2 fc2
     = Inr (fc2\<lparr>features := map (\<lambda>x. if sel2 x then x\<lparr>attr := mask_label d2 (attr x)\<rparr> else x) (features fc2)\<rparr>)"
    using add_annual_var_stamps[where sel=sel2 and today=d2, OF s2 st2]
    by (simp add: label_water_mask_def sel2_def)
  have run: "event_labeler True park within_water d1 d2 patches_fc
     = Inr (fc2\<lparr>features := map (\<lambda>x. if sel2 x then x\<lparr>attr := mask_label d2 (attr x)\<rparr> else x) (features fc2)\<rparr>)"
    unfolding event_labeler_def by (simp only: if_True a1 bind_err_def sum.case a2 a3)
  show ?thesis
    unfolding run
    apply (intro exI conjI, rule refl)
     apply (simp add: fc2_def fc1_def comp_def)
    apply (simp only: fc2_def fc1_def)
    apply (cases "park = ''LEWI''")
     apply (simp_all only: if_True if_False not_True_eq_False not_False_eq_True simp_thms)
    apply (simp_all add: comp_def sel1_def sel2_def mask_label_def events_blank_def
        event_field_names_def)
    done
qed

theorem mask_patches_labelled_witness:
  "set event_field_names \<inter> set (ListFields example_year_fc) = {}
   \<and> ''InMask'' \<in> set (ListFields example_year_fc)
   \<and> (\<exists>fc'. event_labeler True ''MORA'' (\<lambda>g. g = 2) ''2024-06-30'' ''2024-07-01'' example_year_fc = Inr fc'
        \<and> map (\<lambda>x. map (attr x) [''EventType'', ''ChangeType'', ''Confidence'', ''EventDate'',
                                    ''LabeledBy'', ''PriorRun'', ''PostDist'']) (features fc')
          = [[Txt ''Mask'', Txt ''Annual Variability'', Num 2, Txt ''2024-06-30'', Txt ''Geoprocessing'', Num 0, Num 0],
             [Txt ''Mask'', Txt ''Annual Variability'', Num 2, Txt ''2024-07-01'', Txt ''Geoprocessing'', Num 0, Num 0],
             [NA, NA, NA, NA, NA, NA, NA]])"
proof -
  have h1: "set event_field_names \<inter> set (ListFields example_year_fc) = {}"
    by (simp add: example_year_fc_def ListFields_def event_field_names_def)
  have h2: "''InMask'' \<in> set (ListFields example_year_fc)"
    by (simp add: example_year_fc_def ListFields_def)
  then have h2': "''MORA'' = ''LEWI'' \<or> ''InMask'' \<in> set (ListFields example_year_fc)" ..
  have rhs: "map (\<lambda>x. if (\<lambda>g. g = 2) (Shape x)
                   then [Txt ''Mask'', Txt ''Annual Variability'', Num 2, Txt ''2024-07-01'',
                         Txt ''Geoprocessing'', Num 0, Num 0]
                 else if ''MORA'' \<noteq> ''LEWI'' \<and> attr x ''InMask'' = Num 1
                   then [Txt ''Mask'', Txt ''Annual Variability'', Num 2, Txt ''2024-06-30'',
                         Txt ''Geoprocessing'', Num 0, Num 0]
                 else [NA, NA, NA, NA, NA, NA, NA])
           (features example_year_fc)
     = [[Txt ''Mask'', Txt ''Annual Variability'', Num 2, Txt ''2024-06-30'', Txt ''Geoprocessing'', Num 0, Num 0],
        [Txt ''Mask'', Txt ''Annual Variability'', Num 2, Txt ''2024-07-01'', Txt ''Geoprocessing'', Num 0, Num 0],
        [NA, NA, NA, NA, NA, NA, NA]]"
    by (simp add: example_year_fc_def)
  have ex: "\<exists>fc'. event_labeler True ''MORA'' (\<lambda>g. g = 2) ''2024-06-30'' ''2024-07-01'' example_year_fc = Inr fc'
     \<and> map Shape (features fc') = map Shape (features example_year_fc)
     \<and> map (\<lambda>x. map (attr x) [''EventType'', ''ChangeType'', ''Confidence'', ''EventDate'',
                                    ''LabeledBy'', ''PriorRun'', ''PostDist'']) (features fc')
          = [[Txt ''Mask'', Txt ''Annual Variability'', Num 2, Txt ''2024-06-30'', Txt ''Geoprocessing'', Num 0, Num 0],
             [Txt ''Mask'', Txt ''Annual Variability'', Num 2, Txt ''2024-07-01'', Txt ''Geoprocessing'', Num 0, Num 0],
             [NA, NA, NA, NA, NA, NA, NA]]"
    using mask_patches_labelled[OF h1 h2', of "\<lambda>g. g = 2" "''2024-06-30''" "''2024-07-01''"]
    unfolding rhs .
  have "\<exists>fc'. event_labeler True ''MORA'' (\<lambda>g. g = 2) ''2024-06-30'' ''2024-07-01'' example_year_fc = Inr fc'
     \<and> map (\<lambda>x. map (attr x) [''EventType'', ''ChangeType'', ''Confidence'', ''EventDate'',
                                    ''LabeledBy'', ''PriorRun'', ''PostDist'']) (features fc')
          = [[Txt ''Mask'', Txt ''Annual Variability'', Num 2, Txt ''2024-06-30'', Txt ''Geoprocessing'', Num 0, Num 0],
             [Txt ''Mask'', Txt ''Annual Variability'', Num 2, Txt ''2024-07-01'', Txt ''Geoprocessing'', Num 0, Num 0],
             [NA, NA, NA, NA, NA, NA, NA]]"
    using ex by (elim exE conjE, intro exI conjI) assumption+
  then show ?thesis
    by (intro conjI h1 h2)
qed

subsection \<open>Temporal overlap\<close>

text \<open>
  C3. The yearly loop adds the nullable field OverlapPrv and never writes 0 to it:
  \<^verbatim>\<open>add_overlap_prev\<close> only sets 1 on the selected patches. On two years of one park (a
  single patch in 1990; in 1991 one patch that shares cell 2 with it and one that shares
  nothing) the cumulative dataset ends with OverlapPrv null for the first-year patch, 1
  for the overlapping patch and null for the other, where the claim has 0, 1 and 0.
\<close>

theorem overlap_prv_left_null:
  "(case yearly_loop (\<lambda>a b. a \<inter> b \<noteq> {}) ''MORA'' False None None example_years of
      Inr (Some db) \<Rightarrow> Some (SearchCursor db ''yod'', SearchCursor db ''OverlapPrv'')
    | _ \<Rightarrow> None)
   = Some ([Num 1990, Num 1991, Num 1991], [NA, Num 1, NA])"
  by (simp add: example_years_def overlap_and_merge_def add_overlap_prev_def bind_err_def
      AddField_def ListFields_def CalculateField_def field_type_def Append_def SearchCursor_def
      set_attr_def Let_def)

subsection \<open>Curated labels\<close>

text \<open>
  C8. \<^verbatim>\<open>update_event_fields\<close> lists ChangeType twice and ChangeDesc not at all. A patch that
  already carries a label and is matched by PatchName gets the table's EventType,
  ChangeType, Confidence, AltType, DistYear and DistName, but keeps its old ChangeDesc; the
  table's value stays behind in the joined field ChangeDesc_1, which is never deleted.
\<close>

theorem join_leaves_change_desc:
  "(case join_labels_to_patches example_labelled_fc example_events_tbl of
      Inr db \<Rightarrow> Some (ListFields db, map (\<lambda>x. map (attr x) (ListFields db)) (features db))
    | Inl e \<Rightarrow> None)
   = Some ([''PatchName'', ''EventType'', ''ChangeType'', ''Confidence'', ''AltType'', ''ChangeDesc'',
            ''DistYear'', ''DistName'', ''ChangeDesc_1''],
           [[Txt ''MORA_5_7_1990_2020_2001_42'', Txt ''Clear'', Txt ''Clearing'', Num 3, Txt ''Fire'',
             Txt ''old note'', Num 2001, Txt ''New Cut'', Txt ''new note'']])"
  by (simp add: join_labels_to_patches_def example_labelled_fc_def example_events_tbl_def
      label_schema_def JoinField_def join_value_def update_event_fields_def DeleteField_def bind_err_def
      AddField_def ListFields_def CalculateField_def field_type_def set_attr_def Let_def)

subsection \<open>Whole numbers as text\<close>









subsection \<open>Attributes from reference layers\<close>













subsection \<open>Coordinates\<close>

text \<open>
  C5. The fallback itself works on these datasets: the patch whose central point cannot
  be calculated gets centroid coordinates and CoordType "Centroid", the others keep
  their central points, and the run finishes. The warning does not: \<^verbatim>\<open>add_albers\<close> emits
  it only on the exit taken when the failing patch carries the greatest annualID. With
  the failing patch in the middle, the recursive call returns from its \<^verbatim>\<open>try\<close> block
  and no warning is emitted at all; with the failing patch last, the warning lists it.
\<close>

theorem centroid_fallback_without_warning:
  "coords_view (add_coords 10 id id ''change_1990'' (patches_middle_fails, []))
     = Some (Inr ([(1, Some ''Central point'', Some 10, Some 15),
                   (2, Some ''Centroid'', Some 21, Some 26),
                   (3, Some ''Central point'', Some 30, Some 35)], []))
   \<and> coords_view (add_coords 10 id id ''change_1990'' (patches_last_fails, []))
     = Some (Inr ([(1, Some ''Central point'', Some 10, Some 15),
                   (2, Some ''Central point'', Some 20, Some 25),
                   (3, Some ''Centroid'', Some 31, Some 36)],
                  [AddWarning ''The central point(s) could not be calculated for patch(es) from change_1990 with annualID(s) [3]. Centroid(s) calculated instead.'']))"
  by (simp add: coords_view_def add_coords_def patches_middle_fails_def patches_last_fails_def
      new_patch_def eval_nat_numeral put_albers_def py_truthy_ids_def add_utm_dd_def bind_err_def
      repr_int_list_def str_int_def string_of_nat.simps Let_def)

end
